theory Spec2Isabelle
  imports Main
begin

section \<open>Text\<close>

text \<open>
  The plugin runs with \<^verbatim>\<open>unicode_literals\<close>: its text values are Python 2 unicode
  strings, modelled as lists of code points. Raw HTTP bodies are byte strings, modelled as
  lists of 8-bit characters. \<open>u\<close> embeds an ASCII literal of the source.
\<close>

type_synonym ustring = "nat list"
type_synonym bytes = "char list"

definition u :: "string \<Rightarrow> ustring" where
  "u s = map of_char s"

text \<open>Truthiness of an optional text value: \<^verbatim>\<open>None\<close> and \<^verbatim>\<open>''\<close> are false.\<close>

fun truthy :: "ustring option \<Rightarrow> bool" where
  "truthy None = False"
| "truthy (Some s) = (s \<noteq> [])"

definition startswith :: "'a list \<Rightarrow> 'a list \<Rightarrow> bool" where
  "startswith s p = (take (length p) s = p)"

definition endswith :: "'a list \<Rightarrow> 'a list \<Rightarrow> bool" where
  "endswith s p = (length p \<le> length s \<and> drop (length s - length p) s = p)"

text \<open>\<^verbatim>\<open>sub in s\<close>\<close>

fun contains :: "'a list \<Rightarrow> 'a list \<Rightarrow> bool" where
  "contains [] sub = (sub = [])"
| "contains (c # cs) sub = (startswith (c # cs) sub \<or> contains cs sub)"

text \<open>\<^verbatim>\<open>s.split(sep)\<close> for a separator of one character: empty pieces are kept.\<close>

fun split :: "'a \<Rightarrow> 'a list \<Rightarrow> 'a list list" where
  "split sep [] = [[]]"
| "split sep (c # cs) =
     (if c = sep then [] # split sep cs
      else (case split sep cs of
              [] \<Rightarrow> [[c]]
            | w # ws \<Rightarrow> (c # w) # ws))"

text \<open>\<^verbatim>\<open>sep.join(parts)\<close>\<close>

fun join :: "'a list \<Rightarrow> 'a list list \<Rightarrow> 'a list" where
  "join sep [] = []"
| "join sep [p] = p"
| "join sep (p # q # ps) = p @ sep @ join sep (q # ps)"

text \<open>
  The first occurrence of a non-empty \<open>sep\<close> in \<open>s\<close>: the text before it and the text
  after it.
\<close>

fun partition_first :: "'a list \<Rightarrow> 'a list \<Rightarrow> ('a list \<times> 'a list) option" where
  "partition_first sep [] = None"
| "partition_first sep (c # cs) =
     (if sep \<noteq> [] \<and> startswith (c # cs) sep then Some ([], drop (length sep) (c # cs))
      else (case partition_first sep cs of
              None \<Rightarrow> None
            | Some (a, b) \<Rightarrow> Some (c # a, b)))"

text \<open>\<^verbatim>\<open>s.rsplit(sep, 1)\<close>: split once, at the last occurrence of \<open>sep\<close>.\<close>

definition rsplit1 :: "'a list \<Rightarrow> 'a list \<Rightarrow> 'a list list" where
  "rsplit1 sep s =
     (case partition_first (rev sep) (rev s) of
        None \<Rightarrow> [s]
      | Some (a, b) \<Rightarrow> [rev b, rev a])"

text \<open>
  \<^verbatim>\<open>s.replace(old, new)\<close> for a non-empty \<open>old\<close> (the plugin only replaces the literal
  \<^verbatim>\<open>'_fs.'\<close>): occurrences are replaced from the left and do not overlap. The counter is
  the number of characters of a matched occurrence still to be skipped.
\<close>

fun replace_from :: "'a list \<Rightarrow> 'a list \<Rightarrow> nat \<Rightarrow> 'a list \<Rightarrow> 'a list" where
  "replace_from old new k [] = []"
| "replace_from old new (Suc k) (c # cs) = replace_from old new k cs"
| "replace_from old new 0 (c # cs) =
     (if old \<noteq> [] \<and> startswith (c # cs) old
      then new @ replace_from old new (length old - 1) cs
      else c # replace_from old new 0 cs)"

definition replace :: "'a list \<Rightarrow> 'a list \<Rightarrow> 'a list \<Rightarrow> 'a list" where
  "replace old new s = replace_from old new 0 s"

text \<open>
  Whitespace of \<^verbatim>\<open>unicode.strip()\<close> in Python 2 and of \<^verbatim>\<open>str.strip()\<close> on bytes.
\<close>

definition uspace :: "nat \<Rightarrow> bool" where
  "uspace c = ((9 \<le> c \<and> c \<le> 13) \<or> (28 \<le> c \<and> c \<le> 32) \<or> c = 133 \<or> c = 160
     \<or> c = 5760 \<or> c = 6158 \<or> (8192 \<le> c \<and> c \<le> 8202) \<or> c = 8232 \<or> c = 8233
     \<or> c = 8239 \<or> c = 8287 \<or> c = 12288)"

definition bspace :: "char \<Rightarrow> bool" where
  "bspace c = (let n = (of_char c :: nat) in (9 \<le> n \<and> n \<le> 13) \<or> n = 32)"

definition strip_with :: "('a \<Rightarrow> bool) \<Rightarrow> 'a list \<Rightarrow> 'a list" where
  "strip_with sp s = rev (dropWhile sp (rev (dropWhile sp s)))"

definition strip :: "ustring \<Rightarrow> ustring" where
  "strip s = strip_with uspace s"

definition is_digit :: "nat \<Rightarrow> bool" where
  "is_digit c = (48 \<le> c \<and> c \<le> 57)"

section \<open>Parsed pages\<close>

text \<open>
  An element of an lxml tree: tag, attributes, the text before its first child, its
  children, and the text that follows it inside its parent (its tail). A missing text is
  \<^verbatim>\<open>None\<close>.
\<close>

datatype html =
  Element (tag: string) (attrib: "(string \<times> ustring) list") (etext: "ustring option")
    (children: "html list") (etail: "ustring option")

definition get_attr :: "html \<Rightarrow> string \<Rightarrow> ustring option" where
  "get_attr e k = map_of (attrib e) k"

text \<open>
  The elements of a tree in document order, each with its ancestors (nearest first) and
  its preceding siblings (nearest first): what the XPath expressions of the plugin look at.
\<close>

type_synonym located = "html list \<times> html list \<times> html"

fun walk :: "html list \<Rightarrow> html list \<Rightarrow> html \<Rightarrow> located list"
  and walk_list :: "html list \<Rightarrow> html list \<Rightarrow> html list \<Rightarrow> located list" where
  "walk anc pre (Element t a x cs y) =
     (anc, pre, Element t a x cs y) # walk_list (Element t a x cs y # anc) [] cs"
| "walk_list anc pre [] = []"
| "walk_list anc pre (e # es) = walk anc pre e @ walk_list anc (e # pre) es"

text \<open>\<^verbatim>\<open>//*\<close> from the document: every element, the root included.\<close>

definition all_elements :: "html \<Rightarrow> located list" where
  "all_elements root = walk [] [] root"

text \<open>\<^verbatim>\<open>.//*\<close> from an element: its proper descendants.\<close>

definition descendants :: "html \<Rightarrow> html list" where
  "descendants e = map (\<lambda>(anc, pre, d). d) (walk_list [e] [] (children e))"

text \<open>The elements of a tree in document order, without their context.\<close>

fun preorder :: "html \<Rightarrow> html list" where
  "preorder (Element t a x cs y) = Element t a x cs y # concat (map preorder cs)"

text \<open>\<^verbatim>\<open>/@k\<close>: the values of attribute \<open>k\<close> of those elements that have it.\<close>

definition attr_values :: "string \<Rightarrow> html list \<Rightarrow> ustring list" where
  "attr_values k es = List.map_filter (\<lambda>e. get_attr e k) es"

text \<open>\<^verbatim>\<open>contains(@k, "v")\<close>: a missing attribute is the empty string.\<close>

definition attr_contains :: "html \<Rightarrow> string \<Rightarrow> ustring \<Rightarrow> bool" where
  "attr_contains e k v = contains (case get_attr e k of None \<Rightarrow> [] | Some s \<Rightarrow> s) v"

section \<open>The plugin: constants, book URL, cover cache\<close>

definition BASE_URL :: ustring where
  "BASE_URL = u ''http://www.aladin.co.kr''"

definition BROWSE_URL :: ustring where
  "BROWSE_URL = u ''http://www.aladin.co.kr/shop/wproduct.aspx''"

definition SEARCH_URL :: ustring where
  "SEARCH_URL = u ''http://www.aladin.co.kr/search/wsearchresult.aspx?SearchTarget=Book''"

type_synonym identifiers = "string \<rightharpoonup> ustring"

text \<open>The host's cache from an identifier to a cover URL.\<close>

type_synonym cover_cache = "ustring \<rightharpoonup> ustring"

definition get_book_url :: "identifiers \<Rightarrow> (ustring \<times> ustring \<times> ustring) option" where
  "get_book_url identifiers =
     (let isbn = identifiers ''isbn'' in
      if truthy isbn then
        (let url = BROWSE_URL @ u ''?ISBN='' @ the isbn in
         Some (u ''aladin'', the isbn, url))
      else None)"

definition get_cached_cover_url :: "cover_cache \<Rightarrow> identifiers \<Rightarrow> ustring option" where
  "get_cached_cover_url cache identifiers =
     (let isbn = identifiers ''isbn'' in
      if truthy isbn then cache (the isbn) else None)"

section \<open>Search results\<close>

text \<open>\<^verbatim>\<open>root.xpath('//div[@class="ss_book_box"]')\<close>\<close>

definition xpath_ss_book_box :: "html \<Rightarrow> html list" where
  "xpath_ss_book_box root =
     [e. (anc, pre, e) \<leftarrow> all_elements root,
         tag e = ''div'' \<and> get_attr e ''class'' = Some (u ''ss_book_box'')]"

text \<open>\<^verbatim>\<open>item.xpath('.//a[@class="bo3"]/@href')\<close>\<close>

definition xpath_bo3_href :: "html \<Rightarrow> ustring list" where
  "xpath_bo3_href item =
     attr_values ''href''
       [a \<leftarrow> descendants item. tag a = ''a'' \<and> get_attr a ''class'' = Some (u ''bo3'')]"

text \<open>The loop of \<^verbatim>\<open>_parse_search_results\<close> over the result boxes.\<close>

fun parse_search_results_items :: "html list \<Rightarrow> ustring list \<Rightarrow> ustring list" where
  "parse_search_results_items [] matches = matches"
| "parse_search_results_items (item # items) matches =
     (let result_url = xpath_bo3_href item in
      if result_url \<noteq> [] then parse_search_results_items items (matches @ [hd result_url])
      else parse_search_results_items items matches)"

definition parse_search_results :: "html \<Rightarrow> ustring list \<Rightarrow> ustring list" where
  "parse_search_results root matches =
     parse_search_results_items (xpath_ss_book_box root) matches"

section \<open>The host and the outside world\<close>

text \<open>
  Exceptions the plugin's own expressions raise, and what it inspects of an exception
  raised by the browser: \<^verbatim>\<open>getcode()\<close> when there is one, whether \<^verbatim>\<open>args[0]\<close> is a
  \<^verbatim>\<open>socket.timeout\<close>, and the text \<^verbatim>\<open>as_unicode\<close> makes of it.
\<close>

datatype pyexn = IndexError | AttributeError | ValueError | UnicodeEncodeError

datatype exn = Exn (getcode: "nat option") (is_timeout: bool) (as_unicode: ustring)

text \<open>
  \<^verbatim>\<open>browser.open_novisit(url, timeout=t).read()\<close>: the request fails, reading the
  response fails, or the body arrives.
\<close>

datatype http = OpenFailed exn | ReadFailed exn | Body bytes

text \<open>Python floats are not modelled: an opaque type. A \<^verbatim>\<open>datetime\<close> is year, month, day.\<close>

typedecl pyfloat

datatype datetime = Datetime nat nat nat

text \<open>
  The host's metadata record, with the fields the plugin writes. \<^verbatim>\<open>Metadata(title, authors)\<close>
  leaves every other field unset.
\<close>

record metadata =
  mi_title :: ustring
  mi_authors :: "ustring list"
  mi_series :: "ustring option"
  mi_series_index :: "pyfloat option"
  mi_isbn :: "ustring option"
  mi_comments :: "ustring option"
  mi_has_cover :: bool
  mi_cover_url :: "ustring option"
  mi_publisher :: "ustring option"
  mi_pubdate :: "datetime option"
  mi_language :: "ustring option"
  mi_source_relevance :: "nat option"

definition Metadata :: "ustring \<Rightarrow> ustring list \<Rightarrow> metadata" where
  "Metadata title authors =
     \<lparr>mi_title = title, mi_authors = authors, mi_series = None, mi_series_index = None,
      mi_isbn = None, mi_comments = None, mi_has_cover = False, mi_cover_url = None,
      mi_publisher = None, mi_pubdate = None, mi_language = None,
      mi_source_relevance = None\<rparr>"

text \<open>\<^verbatim>\<open>mi.identifiers\<close>: the host keeps \<^verbatim>\<open>mi.isbn\<close> under the key \<^verbatim>\<open>'isbn'\<close>.\<close>

definition mi_identifiers :: "metadata \<Rightarrow> identifiers" where
  "mi_identifiers mi = (case mi_isbn mi of None \<Rightarrow> Map.empty | Some i \<Rightarrow> [''isbn'' \<mapsto> i])"

text \<open>
  Everything the plugin calls and does not define: the browser, the codecs and
  \<^verbatim>\<open>urllib.quote\<close>, the HTML parser, the host's \<^verbatim>\<open>check_isbn\<close>,
  \<^verbatim>\<open>clean_downloaded_metadata\<close> and \<^verbatim>\<open>identify_results_keygen\<close>, \<^verbatim>\<open>float\<close>, and
  the two things other threads decide: whether \<^verbatim>\<open>abort\<close> is set and whether worker \<open>i\<close>
  is alive, each at the moment of the caller's \<open>n\<close>-th look at the threading interface.
\<close>

record env =
  open_novisit :: "ustring \<Rightarrow> nat \<Rightarrow> http"
  encode_euc_kr :: "ustring \<Rightarrow> bytes option"
  decode_euc_kr :: "bytes \<Rightarrow> ustring"
  quote :: "bytes \<Rightarrow> ustring"
  clean_ascii_chars :: "ustring \<Rightarrow> ustring"
  fromstring :: "ustring \<Rightarrow> html option"
  check_isbn :: "ustring option \<Rightarrow> ustring option"
  py_float :: "ustring \<Rightarrow> pyfloat option"
  clean_downloaded_metadata :: "metadata \<Rightarrow> metadata"
  identify_results_keygen ::
    "ustring option \<Rightarrow> ustring list option \<Rightarrow> identifiers \<Rightarrow> metadata \<Rightarrow> int"
  abort_is_set :: "nat \<Rightarrow> bool"
  is_alive :: "nat \<Rightarrow> nat \<Rightarrow> bool"

text \<open>A worker thread's own fields.\<close>

record worker =
  url :: ustring
  relevance :: nat
  timeout :: nat
  cover_url :: "ustring option"
  isbn :: "ustring option"

definition Worker :: "ustring \<Rightarrow> nat \<Rightarrow> worker" where
  "Worker url0 relevance0 =
     \<lparr>url = url0, relevance = relevance0, timeout = 20, cover_url = None, isbn = None\<rparr>"

text \<open>
  What a thread does that others can see, in order: a log line (level, format, arguments),
  a request, and the calls of the threading interface (durations in milliseconds, workers
  by their position in the list of workers).
\<close>

datatype level = Info | Error | Exception

datatype event =
    Log level string "ustring list"
  | Open ustring nat
  | IsSet bool
  | Start worker
  | Sleep nat
  | Join nat nat
  | IsAlive nat bool
  | CallIdentify
  | Put bytes

section \<open>Building the query\<close>

text \<open>
  \<^verbatim>\<open>[quote(t.encode('euc-kr')) for t in tokens]\<close> for unicode tokens (the host passes
  title and authors as unicode text): the first token that has no encoding raises.
\<close>

fun quote_tokens :: "env \<Rightarrow> ustring list \<Rightarrow> pyexn + ustring list" where
  "quote_tokens E [] = Inr []"
| "quote_tokens E (t # ts) =
     (case encode_euc_kr E t of
        None \<Rightarrow> Inl UnicodeEncodeError
      | Some b \<Rightarrow>
          (case quote_tokens E ts of
             Inl x \<Rightarrow> Inl x
           | Inr qs \<Rightarrow> Inr (quote E b # qs)))"

definition create_query ::
  "env \<Rightarrow> ustring option \<Rightarrow> ustring list option \<Rightarrow> identifiers \<Rightarrow> pyexn + ustring option" where
  "create_query E title authors identifiers =
     (let isbn = check_isbn E (identifiers ''isbn'') in
      if isbn \<noteq> None then Inr (Some (BROWSE_URL @ u ''?ISBN='' @ the isbn))
      else
        (case (if truthy title then quote_tokens E (split 32 (the title)) else Inr []) of
           Inl x \<Rightarrow> Inl x
         | Inr title_tokens \<Rightarrow>
             (case (if authors \<noteq> None \<and> authors \<noteq> Some []
                    then quote_tokens E (split 32 (hd (the authors))) else Inr []) of
                Inl x \<Rightarrow> Inl x
              | Inr author_tokens \<Rightarrow>
                  (let tokens = [] @ title_tokens @ author_tokens in
                   if length tokens = 0 then Inr None
                   else Inr (Some (SEARCH_URL @ u ''&SearchWord='' @ join (u ''+'') tokens))))))"

section \<open>identify\<close>

text \<open>How a call ends: with a returned value (\<^verbatim>\<open>None\<close> or a message) or an exception.\<close>

datatype outcome = Returned "ustring option" | Raised pyexn

text \<open>
  The first part of \<^verbatim>\<open>identify\<close>, up to the list of matches: what the calling thread
  did, and either how the call ended early or the matches.
\<close>

definition identify_matches ::
  "env \<Rightarrow> ustring option \<Rightarrow> ustring list option \<Rightarrow> identifiers \<Rightarrow> nat
     \<Rightarrow> event list \<times> (outcome + ustring list)" where
  "identify_matches E title authors identifiers tmo =
     (let matches = [];
          isbn = identifiers ''isbn'' in
      if truthy isbn then ([], Inr (matches @ [BROWSE_URL @ u ''?ISBN='' @ the isbn]))
      else
        (case create_query E title authors identifiers of
           Inl x \<Rightarrow> ([], Inl (Raised x))
         | Inr None \<Rightarrow>
             ([Log Error ''Insufficient metadata to construct query'' []], Inl (Returned None))
         | Inr (Some query) \<Rightarrow>
             (let ev = [Log Info ''Querying: %s'' [query], Open query tmo];
                  msg = ''Failed to parse Aladin page for query'' in
              case open_novisit E query tmo of
                OpenFailed e \<Rightarrow>
                  (ev @ [Log Exception ''Failed to make identify query'' []],
                   Inl (Returned (Some (as_unicode e))))
              | ReadFailed e \<Rightarrow> (ev @ [Log Exception msg []], Inl (Returned (Some (u msg))))
              | Body body \<Rightarrow>
                  (let raw = decode_euc_kr E (strip_with bspace body) in
                   if raw = [] then
                     (ev @ [Log Error ''Failed to get raw result for query'' []],
                      Inl (Returned None))
                   else
                     (case fromstring E (clean_ascii_chars E raw) of
                        None \<Rightarrow> (ev @ [Log Exception msg []], Inl (Returned (Some (u msg))))
                      | Some root \<Rightarrow> (ev, Inr (parse_search_results root matches)))))))"

text \<open>
  The \<^verbatim>\<open>for w in workers\<close> loop inside the polling loop, from look \<open>t\<close> on: the events,
  the next look, \<^verbatim>\<open>a_worker_is_alive\<close>, and whether the loop was left by \<^verbatim>\<open>break\<close>.
\<close>

fun join_workers :: "env \<Rightarrow> nat list \<Rightarrow> nat \<Rightarrow> bool \<Rightarrow> event list \<times> nat \<times> bool \<times> bool" where
  "join_workers E [] t a_worker_is_alive = ([], t, a_worker_is_alive, False)"
| "join_workers E (w # ws) t a_worker_is_alive =
     (if abort_is_set E (t + 1) then ([Join w 200, IsSet True], t + 2, a_worker_is_alive, True)
      else
        (let alive = is_alive E w (t + 2) in
         case join_workers E ws (t + 3) (a_worker_is_alive \<or> alive) of
           (ev, t', a, broke) \<Rightarrow> ([Join w 200, IsSet False, IsAlive w alive] @ ev, t', a, broke)))"

text \<open>
  The \<^verbatim>\<open>while not abort.is_set()\<close> loop. Nothing bounds the number of its rounds, so the
  model counts them down from \<open>fuel\<close> and has no result when they run out.
\<close>

fun join_loop :: "nat \<Rightarrow> env \<Rightarrow> nat list \<Rightarrow> nat \<Rightarrow> (event list \<times> nat) option" where
  "join_loop 0 E ws t = None"
| "join_loop (Suc fuel) E ws t =
     (if abort_is_set E t then Some ([IsSet True], t + 1)
      else
        (case join_workers E ws (t + 1) False of
           (ev, t', a_worker_is_alive, broke) \<Rightarrow>
             if \<not> a_worker_is_alive then Some (IsSet False # ev, t')
             else
               (case join_loop fuel E ws t' of
                  None \<Rightarrow> None
                | Some (ev', t'') \<Rightarrow> Some (IsSet False # ev @ ev', t''))))"

text \<open>
  \<^verbatim>\<open>identify\<close> up to the polling loop: the matches, the check of \<^verbatim>\<open>abort\<close>, one
  \<^verbatim>\<open>Worker\<close> for each match with its position as relevance, each started and followed
  by a sleep of a tenth of a second. The result is the calling thread's events and either
  how the call ended or the workers that now run.
\<close>

definition identify_start ::
  "env \<Rightarrow> ustring option \<Rightarrow> ustring list option \<Rightarrow> identifiers \<Rightarrow> nat
     \<Rightarrow> event list \<times> (outcome + worker list)" where
  "identify_start E title authors identifiers tmo =
     (case identify_matches E title authors identifiers tmo of
        (ev, Inl out) \<Rightarrow> (ev, Inl out)
      | (ev, Inr matches) \<Rightarrow>
          if abort_is_set E 0 then (ev @ [IsSet True], Inl (Returned None))
          else
            (let ws = map (\<lambda>(i, url0). Worker url0 i) (enumerate 0 matches) in
             (ev @ [IsSet False, Log Info ''  Matches are: '' matches]
                 @ concat (map (\<lambda>w. [Start w, Sleep 100]) ws),
              Inr ws)))"

text \<open>
  A finished call of \<^verbatim>\<open>identify\<close>: the calling thread's events, how the call ended, and
  the worker threads it started. The call has no result when the polling loop has none.
\<close>

record identify_run =
  events :: "event list"
  ended :: outcome
  workers :: "worker list"

definition identify ::
  "env \<Rightarrow> nat \<Rightarrow> ustring option \<Rightarrow> ustring list option \<Rightarrow> identifiers \<Rightarrow> nat
     \<Rightarrow> identify_run option" where
  "identify E fuel title authors identifiers tmo =
     (case identify_start E title authors identifiers tmo of
        (ev, Inl out) \<Rightarrow> Some \<lparr>events = ev, ended = out, workers = []\<rparr>
      | (ev, Inr ws) \<Rightarrow>
          (case join_loop fuel E [0..<length ws] (1 + length ws) of
             None \<Rightarrow> None
           | Some (jev, t) \<Rightarrow>
               Some \<lparr>events = ev @ jev, ended = Returned None, workers = ws\<rparr>))"

text \<open>The URLs a thread requested, from its events.\<close>

fun opened :: "event list \<Rightarrow> ustring list" where
  "opened [] = []"
| "opened (Open url0 tmo # ev) = url0 # opened ev"
| "opened (e # ev) = opened ev"

section \<open>Verification: document order\<close>

lemma walk_nodes:
  "map (\<lambda>(anc, pre, d). d) (walk anc pre e) = preorder e"
  "map (\<lambda>(anc, pre, d). d) (walk_list anc pre es) = concat (map preorder es)"
  by (induction anc pre e and anc pre es rule: walk_walk_list.induct) simp_all

lemma descendants_preorder: "descendants e = tl (preorder e)"
  by (cases e) (simp add: descendants_def walk_nodes)

lemma concat_selected:
  "concat (map (\<lambda>(anc, pre, e). if P e then [e] else []) (xs :: located list)) =
     filter P (map (\<lambda>(anc, pre, d). d) xs)"
  by (induction xs) auto

section \<open>Verification: search results\<close>

lemma parse_search_results_items_closed:
  "parse_search_results_items items matches =
     matches @ concat (map (\<lambda>item. take 1 (xpath_bo3_href item)) items)"
proof (induction items arbitrary: matches)
  case Nil
  show ?case by simp
next
  case (Cons item items)
  show ?case
    by (cases "xpath_bo3_href item") (simp_all add: Cons.IH)
qed

lemma xpath_ss_book_box_preorder:
  "xpath_ss_book_box root =
     [e \<leftarrow> preorder root. tag e = ''div'' \<and> get_attr e ''class'' = Some (u ''ss_book_box'')]"
  by (simp add: xpath_ss_book_box_def all_elements_def concat_selected walk_nodes)

text \<open>
  C4. \<^verbatim>\<open>_parse_search_results\<close> leaves the matches it was given in place and appends,
  for the \<^verbatim>\<open>div\<close> elements of class \<^verbatim>\<open>ss_book_box\<close> taken in document order, the first
  \<^verbatim>\<open>href\<close> among the anchors of class \<^verbatim>\<open>bo3\<close> below that element: one URL for a box
  that has such an anchor, none for a box that has not, and nothing for any other element.
\<close>

theorem parse_search_results_document_order:
  "parse_search_results root matches =
     matches @ concat (map
       (\<lambda>box. take 1 (attr_values ''href''
          [a \<leftarrow> tl (preorder box). tag a = ''a'' \<and> get_attr a ''class'' = Some (u ''bo3'')]))
       [e \<leftarrow> preorder root. tag e = ''div'' \<and> get_attr e ''class'' = Some (u ''ss_book_box'')])"
  by (simp add: parse_search_results_def parse_search_results_items_closed
      xpath_ss_book_box_preorder xpath_bo3_href_def descendants_preorder)

end
